theory Spec2Isabelle
  imports Main "HOL-Library.Word" "HOL-Library.FSet" "HOL-Library.Sublist"
begin

section \<open>The wire format and the backend's types\<close>

text \<open>
  The route handlers of \<^verbatim>\<open>server.go\<close> build their answers as Go maps
  (\<^verbatim>\<open>gin.H\<close>, \<^verbatim>\<open>map[string]interface{}\<close>) and hand them to the JSON encoder.
  A payload is a \<open>json\<close> value; an object is an association list in the order of the
  source's map literal, read with \<open>field\<close>.
\<close>

datatype json =
    JString string
  | JInt int
  | JBool bool
  | JArray "json list"
  | JObject "(string \<times> json) list"

fun field :: "string \<Rightarrow> json \<Rightarrow> json option" where
  "field k (JObject kvs) = map_of kvs k"
| "field k _ = None"

text \<open>A Go \<^verbatim>\<open>error\<close> is known to the handlers only through \<^verbatim>\<open>err.Error()\<close>.\<close>

type_synonym go_error = string

text \<open>Go's \<^verbatim>\<open>int\<close> on the platforms the application is built for: 64 bits, wrapping.\<close>

type_synonym go_int = "64 word"

record ModelInfo =
  Name :: string
  Model :: string
  ModifiedAt :: json
  Details :: json

record ChatCompletionMessage =
  Role :: string
  Content :: string

record ChatCompletionChoice =
  Message :: ChatCompletionMessage
  FinishReason :: string

record Usage =
  PromptTokens :: go_int
  CompletionTokens :: go_int
  TotalTokens :: go_int

record ChatCompletionResponse =
  Choices :: "ChatCompletionChoice list"
  Usage :: Usage

record ChatCompletionStreamChoice =
  DeltaContent :: string
  StreamFinishReason :: string

record ChatCompletionStreamResponse =
  StreamChoices :: "ChatCompletionStreamChoice list"

text \<open>
  A backend stream: the deltas \<^verbatim>\<open>stream.Recv()\<close> will still return, in order, and how
  the stream ends once they are consumed, with \<^verbatim>\<open>io.EOF\<close> or with another error.
\<close>

datatype stream_end = EndOfStream | StreamError go_error

type_synonym stream = "ChatCompletionStreamResponse list \<times> stream_end"

text \<open>
  The backend client (\<^verbatim>\<open>OpenrouterProvider\<close>) is an external collaborator: its
  methods are parameters of the model, each returning an error (\<open>Inl\<close>) or a value.
\<close>

record Provider =
  GetModels :: "go_error + ModelInfo list"
  GetModelDetails :: "string \<Rightarrow> go_error + json"
  GetFullModelName :: "string \<Rightarrow> go_error + string"
  Chat :: "ChatCompletionMessage list \<Rightarrow> string \<Rightarrow> go_error + ChatCompletionResponse"
  ChatStream :: "ChatCompletionMessage list \<Rightarrow> string \<Rightarrow> go_error + stream"

record Server =
  provider :: Provider
  filterMap :: "string fset"

section \<open>What a handler does\<close>

text \<open>
  A handler run is the list of its effects, in order: the backend methods it calls, the
  response headers it sets, \<^verbatim>\<open>c.JSON(status, obj)\<close>, a line written with
  \<^verbatim>\<open>fmt.Fprintf(w, "%s\n", json.Marshal(obj))\<close>, a flush, the deferred
  \<^verbatim>\<open>stream.Close()\<close>, and a run-time panic. Logging is not recorded.
\<close>

datatype call =
    CallGetModels
  | CallGetModelDetails string
  | CallGetFullModelName string
  | CallChat "ChatCompletionMessage list" string
  | CallChatStream "ChatCompletionMessage list" string

datatype effect =
    Backend call
  | SetHeader string string
  | JSON nat json
  | WriteLine json
  | Flush
  | Close
  | Panic

fun calls :: "effect list \<Rightarrow> call list" where
  "calls [] = []"
| "calls (Backend c # es) = c # calls es"
| "calls (_ # es) = calls es"

text \<open>The JSON values that reach the response body, in order.\<close>

fun frames :: "effect list \<Rightarrow> json list" where
  "frames [] = []"
| "frames (JSON st v # es) = v # frames es"
| "frames (WriteLine v # es) = v # frames es"
| "frames (_ # es) = frames es"

text \<open>
  The HTTP status the client sees: the one given to \<^verbatim>\<open>c.JSON\<close>, or 200 once a
  line is written to a response whose status was never set.
\<close>

fun status :: "effect list \<Rightarrow> nat option" where
  "status [] = None"
| "status (JSON st v # es) = Some st"
| "status (WriteLine v # es) = Some 200"
| "status (_ # es) = status es"

definition StatusOK :: nat where "StatusOK = 200"
definition StatusBadRequest :: nat where "StatusBadRequest = 400"
definition StatusNotFound :: nat where "StatusNotFound = 404"
definition StatusInternalServerError :: nat where "StatusInternalServerError = 500"

definition error_body :: "string \<Rightarrow> json" where
  "error_body msg = JObject [(''error'', JString msg)]"

section \<open>GET /api/tags\<close>

definition listing_entry :: "ModelInfo \<Rightarrow> json" where
  "listing_entry m = JObject
     [(''name'', JString (Name m)),
      (''model'', JString (Model m)),
      (''modified_at'', ModifiedAt m),
      (''size'', JInt 270898672),
      (''digest'', JString ''9077fe9d2ae1a4a41a868836b56b8163731a8fe16621397028c2c76f838c6907''),
      (''details'', Details m)]"

text \<open>The \<^verbatim>\<open>for _, m := range models\<close> loop, appending to \<^verbatim>\<open>newModels\<close>.\<close>

fun tags_loop :: "string fset \<Rightarrow> ModelInfo list \<Rightarrow> json list \<Rightarrow> json list" where
  "tags_loop flt [] newModels = newModels"
| "tags_loop flt (m # models) newModels =
     (if 0 < fcard flt \<and> Model m |\<notin>| flt then tags_loop flt models newModels
      else tags_loop flt models (newModels @ [listing_entry m]))"

definition tags_handler :: "Server \<Rightarrow> effect list" where
  "tags_handler s =
     Backend CallGetModels #
     (case GetModels (provider s) of
        Inl err \<Rightarrow> [JSON StatusInternalServerError (error_body err)]
      | Inr models \<Rightarrow>
          [JSON StatusOK (JObject [(''models'', JArray (tags_loop (filterMap s) models []))])])"

section \<open>POST /api/show\<close>


section \<open>POST /api/chat\<close>

record ChatRequest =
  req_Model :: string
  req_Messages :: "ChatCompletionMessage list"
  req_Stream :: "bool option"

text \<open>
  \<open>created\<close> is the value of \<^verbatim>\<open>time.Now().Format(time.RFC3339)\<close> when the frame is
  built. The handlers take the clock as \<open>now\<close>: \<open>now k\<close> is its \<open>k\<close>-th reading.
\<close>

definition message_of :: "string \<Rightarrow> json" where
  "message_of content = JObject [(''role'', JString ''assistant''), (''content'', JString content)]"

definition ollamaResponse :: "string \<Rightarrow> string \<Rightarrow> string \<Rightarrow> string \<Rightarrow> Usage \<Rightarrow> json" where
  "ollamaResponse fullModelName created content finishReason u = JObject
     [(''model'', JString fullModelName),
      (''created_at'', JString created),
      (''message'', message_of content),
      (''done'', JBool True),
      (''finish_reason'', JString finishReason),
      (''total_duration'', JInt (sint (TotalTokens u * 10))),
      (''load_duration'', JInt 0),
      (''prompt_eval_count'', JInt (sint (PromptTokens u))),
      (''eval_count'', JInt (sint (CompletionTokens u))),
      (''eval_duration'', JInt (sint (CompletionTokens u * 10)))]"

definition responseJSON :: "string \<Rightarrow> string \<Rightarrow> string \<Rightarrow> json" where
  "responseJSON fullModelName created content = JObject
     [(''model'', JString fullModelName),
      (''created_at'', JString created),
      (''message'', message_of content),
      (''done'', JBool False)]"

definition finalResponse :: "string \<Rightarrow> string \<Rightarrow> string \<Rightarrow> json" where
  "finalResponse fullModelName created lastFinishReason = JObject
     [(''model'', JString fullModelName),
      (''created_at'', JString created),
      (''message'', message_of ''''),
      (''done'', JBool True),
      (''finish_reason'', JString lastFinishReason),
      (''total_duration'', JInt 0),
      (''load_duration'', JInt 0),
      (''prompt_eval_count'', JInt 0),
      (''eval_count'', JInt 0),
      (''eval_duration'', JInt 0)]"

text \<open>The branch \<^verbatim>\<open>if !streamRequested\<close>.\<close>

definition chat_blocking :: "Server \<Rightarrow> (nat \<Rightarrow> string) \<Rightarrow> ChatRequest \<Rightarrow> effect list" where
  "chat_blocking s now request =
     Backend (CallGetFullModelName (req_Model request)) #
     (case GetFullModelName (provider s) (req_Model request) of
        Inl err \<Rightarrow> [JSON StatusNotFound (error_body err)]
      | Inr fullModelName \<Rightarrow>
          Backend (CallChat (req_Messages request) fullModelName) #
          (case Chat (provider s) (req_Messages request) fullModelName of
             Inl err \<Rightarrow> [JSON StatusInternalServerError (error_body err)]
           | Inr response \<Rightarrow>
               if length (Choices response) = 0
               then [JSON StatusInternalServerError (error_body ''No response from model'')]
               else
                 (let content =
                        (if 0 < length (Choices response) \<and>
                            Content (Message (Choices response ! 0)) \<noteq> ''''
                         then Content (Message (Choices response ! 0)) else '''');
                      finishReason =
                        (if FinishReason (Choices response ! 0) \<noteq> ''''
                         then FinishReason (Choices response ! 0) else ''stop'')
                  in [JSON StatusOK
                        (ollamaResponse fullModelName (now 0) content finishReason
                           (Usage response))])))"

text \<open>
  The receive loop. The first component of the stream is what \<^verbatim>\<open>stream.Recv()\<close> still
  has to return; when it is used up, \<^verbatim>\<open>Recv\<close> returns the stream's end. The loop state
  is \<^verbatim>\<open>lastFinishReason\<close> and the number \<open>k\<close> of clock readings so far. The
  expression \<^verbatim>\<open>response.Choices[0].Delta.Content\<close> is evaluated with no check of the
  length: on an empty slice the Go run time panics. \<^verbatim>\<open>json.Marshal\<close> does not fail on
  maps of strings, booleans and integers, so the two branches that return on its error have
  no counterpart here.
\<close>

fun stream_loop :: "(nat \<Rightarrow> string) \<Rightarrow> string \<Rightarrow> string \<Rightarrow> nat \<Rightarrow> stream \<Rightarrow> effect list" where
  "stream_loop now fullModelName lastFinishReason k ([], EndOfStream) =
     [WriteLine (finalResponse fullModelName (now k)
        (if lastFinishReason = '''' then ''stop'' else lastFinishReason)), Flush]"
| "stream_loop now fullModelName lastFinishReason k ([], StreamError err) =
     [WriteLine (JObject [(''error'', JString (''Stream error: '' @ err))]), Flush]"
| "stream_loop now fullModelName lastFinishReason k (response # rest, e) =
     (let lastFinishReason' =
            (if 0 < length (StreamChoices response) \<and>
                StreamFinishReason (StreamChoices response ! 0) \<noteq> ''''
             then StreamFinishReason (StreamChoices response ! 0) else lastFinishReason)
      in case StreamChoices response of
           [] \<Rightarrow> [Panic]
         | choice # _ \<Rightarrow>
             WriteLine (responseJSON fullModelName (now k) (DeltaContent choice)) # Flush #
             stream_loop now fullModelName lastFinishReason' (Suc k) (rest, e))"

text \<open>
  The streaming branch. \<open>is_flusher\<close> is the outcome of the type assertion
  \<^verbatim>\<open>w.(http.Flusher)\<close>. \<^verbatim>\<open>defer stream.Close()\<close> is registered as soon as the stream
  is open, so \<open>Close\<close> ends every run from there on, a panicking one included.
\<close>

definition chat_streaming :: "Server \<Rightarrow> (nat \<Rightarrow> string) \<Rightarrow> bool \<Rightarrow> ChatRequest \<Rightarrow> effect list" where
  "chat_streaming s now is_flusher request =
     Backend (CallGetFullModelName (req_Model request)) #
     (case GetFullModelName (provider s) (req_Model request) of
        Inl err \<Rightarrow> [JSON StatusNotFound (error_body err)]
      | Inr fullModelName \<Rightarrow>
          Backend (CallChatStream (req_Messages request) fullModelName) #
          (case ChatStream (provider s) (req_Messages request) fullModelName of
             Inl err \<Rightarrow> [JSON StatusInternalServerError (error_body err)]
           | Inr stream \<Rightarrow>
               [SetHeader ''Content-Type'' ''application/x-ndjson'',
                SetHeader ''Cache-Control'' ''no-cache'',
                SetHeader ''Connection'' ''keep-alive''] @
               (if \<not> is_flusher then []
                else stream_loop now fullModelName '''' 0 stream) @
               [Close]))"

text \<open>
  The handler. The body is what \<^verbatim>\<open>c.ShouldBindJSON(&request)\<close> made of it, \<open>None\<close>
  when binding failed.
\<close>

definition chat_handler :: "Server \<Rightarrow> (nat \<Rightarrow> string) \<Rightarrow> bool \<Rightarrow> ChatRequest option \<Rightarrow> effect list" where
  "chat_handler s now is_flusher body =
     (case body of
        None \<Rightarrow> [JSON StatusBadRequest (error_body ''Invalid JSON payload'')]
      | Some request \<Rightarrow>
          (let streamRequested = (case req_Stream request of None \<Rightarrow> True | Some b \<Rightarrow> b) in
           if \<not> streamRequested then chat_blocking s now request
           else chat_streaming s now is_flusher request))"

text \<open>Reading the frames of a chat answer.\<close>

definition done_true :: "json \<Rightarrow> bool" where
  "done_true v = (field ''done'' v = Some (JBool True))"

definition done_false :: "json \<Rightarrow> bool" where
  "done_false v = (field ''done'' v = Some (JBool False))"

definition is_error_frame :: "json \<Rightarrow> bool" where
  "is_error_frame v = (field ''error'' v \<noteq> None)"

definition content_of :: "json \<Rightarrow> string" where
  "content_of v =
     (case field ''message'' v of
        Some m \<Rightarrow> (case field ''content'' m of Some (JString c) \<Rightarrow> c | _ \<Rightarrow> '''')
      | None \<Rightarrow> '''')"

section \<open>Loading the model filter\<close>

text \<open>
  \<^verbatim>\<open>strings.TrimSpace\<close> removes from both ends of a string the runes for which
  \<^verbatim>\<open>unicode.IsSpace\<close> holds. A Go string is a sequence of bytes holding UTF-8, so the
  white-space runes are listed by their encodings: the six ASCII ones, U+0085, U+00A0,
  U+1680, U+2000 to U+200A, U+2028, U+2029, U+202F, U+205F and U+3000. A byte sequence that
  is not valid UTF-8 decodes to U+FFFD, which is not white space.
\<close>

definition space_runes :: "string list" where
  "space_runes =
     [[CHR 0x09], [CHR 0x0A], [CHR 0x0B], [CHR 0x0C], [CHR 0x0D], [CHR 0x20],
      [CHR 0xC2, CHR 0x85], [CHR 0xC2, CHR 0xA0],
      [CHR 0xE1, CHR 0x9A, CHR 0x80],
      [CHR 0xE2, CHR 0x80, CHR 0x80], [CHR 0xE2, CHR 0x80, CHR 0x81],
      [CHR 0xE2, CHR 0x80, CHR 0x82], [CHR 0xE2, CHR 0x80, CHR 0x83],
      [CHR 0xE2, CHR 0x80, CHR 0x84], [CHR 0xE2, CHR 0x80, CHR 0x85],
      [CHR 0xE2, CHR 0x80, CHR 0x86], [CHR 0xE2, CHR 0x80, CHR 0x87],
      [CHR 0xE2, CHR 0x80, CHR 0x88], [CHR 0xE2, CHR 0x80, CHR 0x89],
      [CHR 0xE2, CHR 0x80, CHR 0x8A],
      [CHR 0xE2, CHR 0x80, CHR 0xA8], [CHR 0xE2, CHR 0x80, CHR 0xA9],
      [CHR 0xE2, CHR 0x80, CHR 0xAF],
      [CHR 0xE2, CHR 0x81, CHR 0x9F],
      [CHR 0xE3, CHR 0x80, CHR 0x80]]"

text \<open>The width in bytes of the white-space rune a string starts or ends with, 0 if none.\<close>

definition leading_space :: "string \<Rightarrow> nat" where
  "leading_space s = (case find (\<lambda>r. prefix r s) space_runes of None \<Rightarrow> 0 | Some r \<Rightarrow> length r)"

definition trailing_space :: "string \<Rightarrow> nat" where
  "trailing_space s = (case find (\<lambda>r. suffix r s) space_runes of None \<Rightarrow> 0 | Some r \<Rightarrow> length r)"

function TrimLeft :: "string \<Rightarrow> string" where
  "TrimLeft s = (if s = [] \<or> leading_space s = 0 then s else TrimLeft (drop (leading_space s) s))"
  by pat_completeness auto
termination
  by (relation "measure length") auto

function TrimRight :: "string \<Rightarrow> string" where
  "TrimRight s =
     (if s = [] \<or> trailing_space s = 0 then s
      else TrimRight (take (length s - trailing_space s) s))"
  by pat_completeness auto
termination
  by (relation "measure length") auto

text \<open>
  The two equations recurse unconditionally, so they are not left to the simplifier; they
  are unfolded on demand.
\<close>

declare TrimLeft.simps [simp del] TrimRight.simps [simp del]

definition TrimSpace :: "string \<Rightarrow> string" where
  "TrimSpace s = TrimRight (TrimLeft s)"

text \<open>
  \<^verbatim>\<open>bufio.Scanner\<close> with its default split function \<^verbatim>\<open>ScanLines\<close>: the file is cut
  at every newline, a last line with no newline counts when it is not empty, and one
  trailing carriage return is dropped from each line. A line of
  \<^verbatim>\<open>bufio.MaxScanTokenSize\<close> bytes or more does not fit the scanner's buffer:
  \<^verbatim>\<open>Scan\<close> stops there and \<^verbatim>\<open>scanner.Err()\<close> is \<^verbatim>\<open>bufio.ErrTooLong\<close>.
\<close>

definition MaxScanTokenSize :: nat where
  "MaxScanTokenSize = 64 * 1024"

fun raw_lines :: "string \<Rightarrow> string \<Rightarrow> string list" where
  "raw_lines cur [] = (if cur = [] then [] else [cur])"
| "raw_lines cur (c # cs) =
     (if c = CHR 0x0A then cur # raw_lines [] cs else raw_lines (cur @ [c]) cs)"

definition dropCR :: "string \<Rightarrow> string" where
  "dropCR data = (if data \<noteq> [] \<and> last data = CHR 0x0D then butlast data else data)"

datatype load_error = OpenError go_error | ErrTooLong

text \<open>The \<^verbatim>\<open>for scanner.Scan()\<close> loop over the lines still to come, filling the map.\<close>

fun scan_loop :: "string list \<Rightarrow> string fset \<Rightarrow> load_error + string fset" where
  "scan_loop [] flt = Inr flt"
| "scan_loop (raw # rest) flt =
     (if MaxScanTokenSize \<le> length raw then Inl ErrTooLong
      else
        (let line = TrimSpace (dropCR raw) in
         scan_loop rest (if line \<noteq> '''' then finsert line flt else flt)))"

text \<open>
  \<open>loadModelFilter\<close> takes what \<^verbatim>\<open>os.Open(path)\<close> gives: an error, or the bytes of
  the file.
\<close>

definition loadModelFilter :: "go_error + string \<Rightarrow> load_error + string fset" where
  "loadModelFilter file =
     (case file of
        Inl err \<Rightarrow> Inl (OpenError err)
      | Inr bytes \<Rightarrow> scan_loop (raw_lines [] bytes) {||})"

section \<open>Vocabulary for the properties\<close>

text \<open>
  What a streaming answer is expected to hold, stated apart from the loop: one
  \<^verbatim>\<open>done:false\<close> frame per delta, in order, the \<open>k\<close>-th clock reading on the first.
\<close>

fun delta_frames :: "(nat \<Rightarrow> string) \<Rightarrow> string \<Rightarrow> nat \<Rightarrow> ChatCompletionStreamResponse list \<Rightarrow> json list" where
  "delta_frames now fullModelName k [] = []"
| "delta_frames now fullModelName k (d # ds) =
     responseJSON fullModelName (now k) (DeltaContent (StreamChoices d ! 0)) #
     delta_frames now fullModelName (Suc k) ds"

text \<open>Every frame is written as a line of its own and flushed at once.\<close>

fun relayed :: "json list \<Rightarrow> effect list" where
  "relayed [] = []"
| "relayed (v # vs) = WriteLine v # Flush # relayed vs"

text \<open>The finish reason that is remembered after a run of deltas: the last one given.\<close>

fun remembered :: "string \<Rightarrow> ChatCompletionStreamResponse list \<Rightarrow> string" where
  "remembered lastFinishReason [] = lastFinishReason"
| "remembered lastFinishReason (d # ds) =
     remembered
       (if StreamChoices d \<noteq> [] \<and> StreamFinishReason (StreamChoices d ! 0) \<noteq> ''''
        then StreamFinishReason (StreamChoices d ! 0) else lastFinishReason) ds"

definition has_choice :: "ChatCompletionStreamResponse \<Rightarrow> bool" where
  "has_choice d = (StreamChoices d \<noteq> [])"

text \<open>
  A sequence of frames that ends with a \<^verbatim>\<open>done:true\<close> frame, all frames before it being
  \<^verbatim>\<open>done:false\<close> frames.
\<close>

definition terminal_framing :: "json list \<Rightarrow> bool" where
  "terminal_framing fs = (fs \<noteq> [] \<and> done_true (last fs) \<and> list_all done_false (butlast fs))"

definition role_of :: "json \<Rightarrow> string" where
  "role_of v =
     (case field ''message'' v of
        Some m \<Rightarrow> (case field ''role'' m of Some (JString c) \<Rightarrow> c | _ \<Rightarrow> '''')
      | None \<Rightarrow> '''')"

text \<open>
  A chat frame for the model \<open>full\<close>: not an error object, with that \<^verbatim>\<open>model\<close> and a
  message of the role \<^verbatim>\<open>assistant\<close>.
\<close>

definition chat_frame_of :: "string \<Rightarrow> json \<Rightarrow> bool" where
  "chat_frame_of full v =
     (\<not> is_error_frame v \<and> field ''model'' v = Some (JString full) \<and> role_of v = ''assistant'')"

definition stream_headers :: "effect list" where
  "stream_headers =
     [SetHeader ''Content-Type'' ''application/x-ndjson'',
      SetHeader ''Cache-Control'' ''no-cache'',
      SetHeader ''Connection'' ''keep-alive'']"

section \<open>A backend to run the handlers on\<close>

definition example_models :: "ModelInfo list" where
  "example_models =
     [\<lparr>Name = ''openai/gpt-4o-mini'', Model = ''gpt-4o-mini'',
        ModifiedAt = JString ''2024-07-18T00:00:00Z'', Details = JObject []\<rparr>,
      \<lparr>Name = ''openai/gpt-4o'', Model = ''gpt-4o'',
        ModifiedAt = JString ''2024-05-13T00:00:00Z'', Details = JObject []\<rparr>]"

text \<open>
  A backend that knows the two models above and answers every chat call with \<open>chat\<close> and
  every streaming call with \<open>strm\<close>.
\<close>

definition example_provider :: "go_error + ChatCompletionResponse \<Rightarrow> go_error + stream \<Rightarrow> Provider" where
  "example_provider chat strm =
     \<lparr>GetModels = Inr example_models,
      GetModelDetails = (\<lambda>name. if name = ''gpt-4o-mini'' then Inr (JObject []) else Inl ''model not found''),
      GetFullModelName =
        (\<lambda>alias. if alias = ''gpt-4o-mini'' then Inr ''openai/gpt-4o-mini''
                 else if alias = ''gpt-4o'' then Inr ''openai/gpt-4o''
                 else Inl ''model not found''),
      Chat = (\<lambda>messages model. chat),
      ChatStream = (\<lambda>messages model. strm)\<rparr>"

definition example_server :: "go_error + ChatCompletionResponse \<Rightarrow> go_error + stream \<Rightarrow> Server" where
  "example_server chat strm =
     \<lparr>provider = example_provider chat strm, filterMap = {|''gpt-4o-mini''|}\<rparr>"

definition example_request :: "string \<Rightarrow> bool option \<Rightarrow> ChatRequest" where
  "example_request alias strm =
     \<lparr>req_Model = alias, req_Messages = [\<lparr>Role = ''user'', Content = ''hi''\<rparr>], req_Stream = strm\<rparr>"

definition example_clock :: "nat \<Rightarrow> string" where
  "example_clock k = ''2025-01-01T00:00:00Z''"

definition example_completion :: "ChatCompletionResponse" where
  "example_completion =
     \<lparr>Choices = [\<lparr>Message = \<lparr>Role = ''assistant'', Content = ''hello''\<rparr>, FinishReason = ''''\<rparr>],
      Usage = \<lparr>PromptTokens = 3, CompletionTokens = 4, TotalTokens = 7\<rparr>\<rparr>"

definition example_deltas :: "ChatCompletionStreamResponse list" where
  "example_deltas =
     [\<lparr>StreamChoices = [\<lparr>DeltaContent = ''He'', StreamFinishReason = ''''\<rparr>]\<rparr>,
      \<lparr>StreamChoices = [\<lparr>DeltaContent = ''llo'', StreamFinishReason = ''stop''\<rparr>]\<rparr>]"

text \<open>A delta with no choice, as a backend sends it for a chunk that carries no content.\<close>

definition empty_delta :: "ChatCompletionStreamResponse" where
  "empty_delta = \<lparr>StreamChoices = []\<rparr>"

definition no_chat :: "go_error + ChatCompletionResponse" where
  "no_chat = Inl ''not called''"

definition no_stream :: "go_error + stream" where
  "no_stream = Inl ''not called''"

section \<open>The catalog listing\<close>

lemma fcard_pos: "0 < fcard F \<longleftrightarrow> F \<noteq> {||}"
  by (metis fcard_fempty fcard_seteq fempty_fsubsetI gr0I less_nat_zero_code not_less)

lemma tags_loop_filter:
  "tags_loop flt models acc =
     acc @ map listing_entry (filter (\<lambda>m. flt = {||} \<or> Model m |\<in>| flt) models)"
  by (induction models arbitrary: acc) (auto simp: fcard_pos)

text \<open>
  Claim C3. When the backend returns the catalog \<open>C\<close>, the listing of \<^verbatim>\<open>GET /api/tags\<close>
  is made of the entries of \<open>C\<close> that pass the filter, decorated, in the order the backend
  returned them: the entries kept are a subsequence of \<open>C\<close>, and an entry of \<open>C\<close> is kept
  if and only if the filter set is empty or holds the entry's bare model identifier.
\<close>

theorem tags_listing_filtered:
  assumes "GetModels (provider s) = Inr C"
  shows "tags_handler s =
           [Backend CallGetModels,
            JSON StatusOK (JObject [(''models'', JArray (map listing_entry
              (filter (\<lambda>m. filterMap s = {||} \<or> Model m |\<in>| filterMap s) C)))])]
         \<and> subseq (filter (\<lambda>m. filterMap s = {||} \<or> Model m |\<in>| filterMap s) C) C
         \<and> (\<forall>m. m \<in> set (filter (\<lambda>m. filterMap s = {||} \<or> Model m |\<in>| filterMap s) C)
                \<longleftrightarrow> m \<in> set C \<and> (filterMap s = {||} \<or> Model m |\<in>| filterMap s))"
  using assms by (simp add: tags_handler_def tags_loop_filter)

text \<open>
  The example of the specification: the filter holds \<^verbatim>\<open>gpt-4o-mini\<close>, the catalog
  has \<^verbatim>\<open>gpt-4o-mini\<close> and \<^verbatim>\<open>gpt-4o\<close>, and the listing has the first entry only.
\<close>

theorem tags_listing_filtered_witness:
  "GetModels (provider (example_server no_chat no_stream)) = Inr example_models
   \<and> tags_handler (example_server no_chat no_stream) =
       [Backend CallGetModels,
        JSON 200 (JObject [(''models'', JArray [listing_entry (example_models ! 0)])])]"
proof -
  have h: "GetModels (provider (example_server no_chat no_stream)) = Inr example_models"
    by (simp add: example_server_def example_provider_def)
  show ?thesis
    using h tags_listing_filtered [OF h]
    by (simp add: example_server_def example_models_def StatusOK_def)
qed

section \<open>Runs of the chat handler\<close>

text \<open>
  The run of the handler on each of its paths, as an explicit list of effects. The claims
  about the chat route are read off these.
\<close>

lemma frames_append: "frames (xs @ ys) = frames xs @ frames ys"
  by (induction xs rule: frames.induct) auto

lemma calls_append: "calls (xs @ ys) = calls xs @ calls ys"
  by (induction xs rule: calls.induct) auto

lemma frames_relayed: "frames (relayed vs) = vs"
  by (induction vs) auto

lemma calls_relayed: "calls (relayed vs) = []"
  by (induction vs) auto

lemma length_delta_frames: "length (delta_frames now full k ds) = length ds"
  by (induction ds arbitrary: k) auto

lemma stream_loop_relays:
  "list_all has_choice ds \<Longrightarrow>
   stream_loop now full lastFinishReason k (ds, e) =
     relayed (delta_frames now full k ds) @
     stream_loop now full (remembered lastFinishReason ds) (k + length ds) ([], e)"
proof (induction ds arbitrary: lastFinishReason k)
  case Nil
  then show ?case by simp
next
  case (Cons d ds)
  then obtain c cs where "StreamChoices d = c # cs"
    by (cases "StreamChoices d") (auto simp: has_choice_def)
  with Cons show ?case by (simp add: Let_def)
qed

lemma stream_loop_panics:
  "list_all has_choice good \<Longrightarrow> \<not> has_choice bad \<Longrightarrow>
   stream_loop now full lastFinishReason k (good @ bad # rest, e) =
     relayed (delta_frames now full k good) @ [Panic]"
proof (induction good arbitrary: lastFinishReason k)
  case Nil
  then show ?case by (simp add: has_choice_def)
next
  case (Cons d ds)
  then obtain c cs where "StreamChoices d = c # cs"
    by (cases "StreamChoices d") (auto simp: has_choice_def)
  with Cons show ?case by (simp add: Let_def)
qed

lemma done_false_responseJSON: "done_false (responseJSON full created content)"
  by (simp add: done_false_def responseJSON_def)

lemma not_done_true_responseJSON: "\<not> done_true (responseJSON full created content)"
  by (simp add: done_true_def responseJSON_def)

lemma done_true_finalResponse: "done_true (finalResponse full created reason)"
  by (simp add: done_true_def finalResponse_def)

lemma done_true_ollamaResponse: "done_true (ollamaResponse full created content reason u)"
  by (simp add: done_true_def ollamaResponse_def)

lemma not_done_true_error [simp]: "\<not> done_true (JObject [(''error'', v)])"
  by (simp add: done_true_def)

lemma done_false_delta_frames: "list_all done_false (delta_frames now full k ds)"
  by (induction ds arbitrary: k) (auto simp: done_false_responseJSON)

lemma no_done_true_delta_frames: "filter done_true (delta_frames now full k ds) = []"
  by (induction ds arbitrary: k) (auto simp: not_done_true_responseJSON)

lemma content_delta_frames:
  "map content_of (delta_frames now full k ds) = map (\<lambda>d. DeltaContent (StreamChoices d ! 0)) ds"
  by (induction ds arbitrary: k) (auto simp: content_of_def responseJSON_def message_of_def)


lemma chat_handler_None:
  "chat_handler s now fl None = [JSON StatusBadRequest (error_body ''Invalid JSON payload'')]"
  by (simp add: chat_handler_def)

lemma chat_unresolved:
  "GetFullModelName (provider s) (req_Model r) = Inl err \<Longrightarrow>
   chat_handler s now fl (Some r) =
     [Backend (CallGetFullModelName (req_Model r)), JSON StatusNotFound (error_body err)]"
  by (simp add: chat_handler_def chat_blocking_def chat_streaming_def split: option.splits)

lemma chat_blocking_failed:
  "GetFullModelName (provider s) (req_Model r) = Inr full \<Longrightarrow> req_Stream r = Some False \<Longrightarrow>
   Chat (provider s) (req_Messages r) full = Inl err \<Longrightarrow>
   chat_handler s now fl (Some r) =
     [Backend (CallGetFullModelName (req_Model r)), Backend (CallChat (req_Messages r) full),
      JSON StatusInternalServerError (error_body err)]"
  by (simp add: chat_handler_def chat_blocking_def)

lemma chat_blocking_no_choice:
  "GetFullModelName (provider s) (req_Model r) = Inr full \<Longrightarrow> req_Stream r = Some False \<Longrightarrow>
   Chat (provider s) (req_Messages r) full = Inr resp \<Longrightarrow> Choices resp = [] \<Longrightarrow>
   chat_handler s now fl (Some r) =
     [Backend (CallGetFullModelName (req_Model r)), Backend (CallChat (req_Messages r) full),
      JSON StatusInternalServerError (error_body ''No response from model'')]"
  by (simp add: chat_handler_def chat_blocking_def)

lemma chat_blocking_ok:
  "GetFullModelName (provider s) (req_Model r) = Inr full \<Longrightarrow> req_Stream r = Some False \<Longrightarrow>
   Chat (provider s) (req_Messages r) full = Inr resp \<Longrightarrow> Choices resp = c # cs \<Longrightarrow>
   chat_handler s now fl (Some r) =
     [Backend (CallGetFullModelName (req_Model r)), Backend (CallChat (req_Messages r) full),
      JSON StatusOK (ollamaResponse full (now 0) (Content (Message c))
        (if FinishReason c = '''' then ''stop'' else FinishReason c) (Usage resp))]"
  by (simp add: chat_handler_def chat_blocking_def Let_def)

lemma chat_stream_not_opened:
  "GetFullModelName (provider s) (req_Model r) = Inr full \<Longrightarrow> req_Stream r \<noteq> Some False \<Longrightarrow>
   ChatStream (provider s) (req_Messages r) full = Inl err \<Longrightarrow>
   chat_handler s now fl (Some r) =
     [Backend (CallGetFullModelName (req_Model r)), Backend (CallChatStream (req_Messages r) full),
      JSON StatusInternalServerError (error_body err)]"
  by (auto simp add: chat_handler_def chat_streaming_def split: option.splits)

lemma chat_stream_opened:
  "GetFullModelName (provider s) (req_Model r) = Inr full \<Longrightarrow> req_Stream r \<noteq> Some False \<Longrightarrow>
   ChatStream (provider s) (req_Messages r) full = Inr st \<Longrightarrow>
   chat_handler s now fl (Some r) =
     [Backend (CallGetFullModelName (req_Model r)), Backend (CallChatStream (req_Messages r) full)] @
     stream_headers @ (if fl then stream_loop now full '''' 0 st else []) @ [Close]"
  by (auto simp add: chat_handler_def chat_streaming_def stream_headers_def split: option.splits)

lemma frames_stream_headers [simp]: "frames stream_headers = []"
  by (simp add: stream_headers_def)

lemma status_stream_headers [simp]: "status (stream_headers @ es) = status es"
  by (simp add: stream_headers_def)

lemma chat_stream_completed:
  "GetFullModelName (provider s) (req_Model r) = Inr full \<Longrightarrow> req_Stream r \<noteq> Some False \<Longrightarrow>
   ChatStream (provider s) (req_Messages r) full = Inr (ds, e) \<Longrightarrow> list_all has_choice ds \<Longrightarrow>
   chat_handler s now True (Some r) =
     [Backend (CallGetFullModelName (req_Model r)), Backend (CallChatStream (req_Messages r) full)] @
     stream_headers @ relayed (delta_frames now full 0 ds) @
     stream_loop now full (remembered '''' ds) (length ds) ([], e) @ [Close]"
  using stream_loop_relays [where ds = ds and k = 0 and lastFinishReason = "''''" and e = e]
  by (simp add: chat_stream_opened)

section \<open>The terminal frame\<close>

lemmas ex_defs = example_server_def example_provider_def example_request_def example_clock_def
  example_deltas_def empty_delta_def example_completion_def no_chat_def no_stream_def

lemma frames_final:
  "frames (stream_loop now full lastFinishReason k ([], EndOfStream) @ [Close]) =
     [finalResponse full (now k) (if lastFinishReason = '''' then ''stop'' else lastFinishReason)]"
  by simp

lemma frames_broken:
  "frames (stream_loop now full lastFinishReason k ([], StreamError err) @ [Close]) =
     [JObject [(''error'', JString (''Stream error: '' @ err))]]"
  by simp

lemma frames_chat_stream_completed:
  assumes "GetFullModelName (provider s) (req_Model r) = Inr full" "req_Stream r \<noteq> Some False"
    "ChatStream (provider s) (req_Messages r) full = Inr (ds, e)" "list_all has_choice ds"
  shows "frames (chat_handler s now True (Some r)) =
           delta_frames now full 0 ds @
           frames (stream_loop now full (remembered '''' ds) (length ds) ([], e) @ [Close])"
  by (simp add: chat_stream_completed [OF assms] frames_append frames_relayed del: stream_loop.simps)

text \<open>
  Claim C1, as amended. A chat interaction ends with exactly one \<^verbatim>\<open>done:true\<close> frame
  exactly on its successful paths. Without streaming, when the alias resolves and the
  backend answers with at least one choice, the body is that single frame. With streaming,
  when the alias resolves, the stream opens and ends with end-of-stream, and every delta
  has a choice, the frames are one \<^verbatim>\<open>done:false\<close> frame per delta followed by the single
  \<^verbatim>\<open>done:true\<close> frame. On the error paths (a body that does not bind, an alias that
  does not resolve, a failed or empty backend answer, a stream that does not open, a stream
  that breaks after it was opened) no \<^verbatim>\<open>done:true\<close> frame is written at all.
\<close>

theorem chat_done_framing:
  "(GetFullModelName (provider s) (req_Model r) = Inr full \<and> req_Stream r = Some False \<and>
    Chat (provider s) (req_Messages r) full = Inr resp \<and> Choices resp \<noteq> []
      \<longrightarrow> (\<exists>v. frames (chat_handler s now fl (Some r)) = [v] \<and> done_true v))
   \<and> (GetFullModelName (provider s) (req_Model r) = Inr full \<and> req_Stream r \<noteq> Some False \<and>
    ChatStream (provider s) (req_Messages r) full = Inr (ds, EndOfStream) \<and> list_all has_choice ds
      \<longrightarrow> terminal_framing (frames (chat_handler s now True (Some r)))
          \<and> length (filter done_true (frames (chat_handler s now True (Some r)))) = 1
          \<and> butlast (frames (chat_handler s now True (Some r))) = delta_frames now full 0 ds)
   \<and> filter done_true (frames (chat_handler s now fl None)) = []
   \<and> (GetFullModelName (provider s) (req_Model r) = Inl err
      \<longrightarrow> filter done_true (frames (chat_handler s now fl (Some r))) = [])
   \<and> (GetFullModelName (provider s) (req_Model r) = Inr full \<and> req_Stream r = Some False \<and>
      (Chat (provider s) (req_Messages r) full = Inl err \<or>
       Chat (provider s) (req_Messages r) full = Inr resp \<and> Choices resp = [])
      \<longrightarrow> filter done_true (frames (chat_handler s now fl (Some r))) = [])
   \<and> (GetFullModelName (provider s) (req_Model r) = Inr full \<and> req_Stream r \<noteq> Some False \<and>
      ChatStream (provider s) (req_Messages r) full = Inl err
      \<longrightarrow> filter done_true (frames (chat_handler s now fl (Some r))) = [])
   \<and> (GetFullModelName (provider s) (req_Model r) = Inr full \<and> req_Stream r \<noteq> Some False \<and>
      ChatStream (provider s) (req_Messages r) full = Inr (ds, StreamError err) \<and>
      list_all has_choice ds
      \<longrightarrow> filter done_true (frames (chat_handler s now True (Some r))) = [])"
proof -
  have blocking: "\<exists>v. frames (chat_handler s now fl (Some r)) = [v] \<and> done_true v"
    if "GetFullModelName (provider s) (req_Model r) = Inr full" "req_Stream r = Some False"
      "Chat (provider s) (req_Messages r) full = Inr resp" "Choices resp \<noteq> []"
  proof -
    from that(4) obtain c cs where "Choices resp = c # cs" by (cases "Choices resp") auto
    from chat_blocking_ok [OF that(1-3) this] show ?thesis
      by (simp add: done_true_ollamaResponse)
  qed
  have streaming:
    "terminal_framing (frames (chat_handler s now True (Some r)))
     \<and> length (filter done_true (frames (chat_handler s now True (Some r)))) = 1
     \<and> butlast (frames (chat_handler s now True (Some r))) = delta_frames now full 0 ds"
    if "GetFullModelName (provider s) (req_Model r) = Inr full" "req_Stream r \<noteq> Some False"
      "ChatStream (provider s) (req_Messages r) full = Inr (ds, EndOfStream)"
      "list_all has_choice ds"
    using frames_chat_stream_completed [OF that]
    by (simp add: terminal_framing_def done_true_finalResponse done_false_delta_frames
        no_done_true_delta_frames)
  have malformed: "filter done_true (frames (chat_handler s now fl None)) = []"
    by (simp add: chat_handler_None error_body_def)
  have unresolved: "filter done_true (frames (chat_handler s now fl (Some r))) = []"
    if "GetFullModelName (provider s) (req_Model r) = Inl err"
    by (simp add: chat_unresolved [OF that] error_body_def)
  have failed: "filter done_true (frames (chat_handler s now fl (Some r))) = []"
    if "GetFullModelName (provider s) (req_Model r) = Inr full" "req_Stream r = Some False"
      "Chat (provider s) (req_Messages r) full = Inl err \<or>
       Chat (provider s) (req_Messages r) full = Inr resp \<and> Choices resp = []"
    using that(3) chat_blocking_failed [OF that(1,2)] chat_blocking_no_choice [OF that(1,2)]
    by (auto simp: error_body_def)
  have not_opened: "filter done_true (frames (chat_handler s now fl (Some r))) = []"
    if "GetFullModelName (provider s) (req_Model r) = Inr full" "req_Stream r \<noteq> Some False"
      "ChatStream (provider s) (req_Messages r) full = Inl err"
    by (simp add: chat_stream_not_opened [OF that] error_body_def)
  have broken: "filter done_true (frames (chat_handler s now True (Some r))) = []"
    if "GetFullModelName (provider s) (req_Model r) = Inr full" "req_Stream r \<noteq> Some False"
      "ChatStream (provider s) (req_Messages r) full = Inr (ds, StreamError err)"
      "list_all has_choice ds"
    using frames_chat_stream_completed [OF that]
    by (simp add: no_done_true_delta_frames)
  show ?thesis
    using blocking streaming malformed unresolved failed not_opened broken by blast
qed


text \<open>
  The four kinds of run on the example backend: a completed stream of two deltas, a
  blocking answer, a stream that breaks after two deltas, and an unknown alias.
\<close>

theorem chat_done_framing_witness:
  "terminal_framing (frames (chat_handler
      (example_server no_chat (Inr (example_deltas, EndOfStream)))
      example_clock True (Some (example_request ''gpt-4o-mini'' None))))
   \<and> length (filter done_true (frames (chat_handler
      (example_server no_chat (Inr (example_deltas, EndOfStream)))
      example_clock True (Some (example_request ''gpt-4o-mini'' None))))) = 1
   \<and> (\<exists>v. frames (chat_handler
      (example_server (Inr example_completion) no_stream)
      example_clock True (Some (example_request ''gpt-4o-mini'' (Some False)))) = [v]
      \<and> done_true v)
   \<and> filter done_true (frames (chat_handler
      (example_server no_chat (Inr (example_deltas, StreamError ''connection reset'')))
      example_clock True (Some (example_request ''gpt-4o-mini'' (Some True))))) = []
   \<and> filter done_true (frames (chat_handler
      (example_server no_chat no_stream)
      example_clock True (Some (example_request ''llama'' None)))) = []"
proof -
  let ?full = "''openai/gpt-4o-mini''"
  let ?s1 = "example_server no_chat (Inr (example_deltas, EndOfStream))"
  let ?r1 = "example_request ''gpt-4o-mini'' None"
  have h1: "GetFullModelName (provider ?s1) (req_Model ?r1) = Inr ?full \<and>
      req_Stream ?r1 \<noteq> Some False \<and>
      ChatStream (provider ?s1) (req_Messages ?r1) ?full = Inr (example_deltas, EndOfStream) \<and>
      list_all has_choice example_deltas"
    by (simp add: ex_defs has_choice_def)
  let ?s2 = "example_server (Inr example_completion) no_stream"
  let ?r2 = "example_request ''gpt-4o-mini'' (Some False)"
  have h2: "GetFullModelName (provider ?s2) (req_Model ?r2) = Inr ?full \<and>
      req_Stream ?r2 = Some False \<and>
      Chat (provider ?s2) (req_Messages ?r2) ?full = Inr example_completion \<and>
      Choices example_completion \<noteq> []"
    by (simp add: ex_defs)
  let ?s3 = "example_server no_chat (Inr (example_deltas, StreamError ''connection reset''))"
  let ?r3 = "example_request ''gpt-4o-mini'' (Some True)"
  have h3: "GetFullModelName (provider ?s3) (req_Model ?r3) = Inr ?full \<and>
      req_Stream ?r3 \<noteq> Some False \<and>
      ChatStream (provider ?s3) (req_Messages ?r3) ?full =
        Inr (example_deltas, StreamError ''connection reset'') \<and>
      list_all has_choice example_deltas"
    by (simp add: ex_defs has_choice_def)
  let ?s4 = "example_server no_chat no_stream"
  let ?r4 = "example_request ''llama'' None"
  have h4: "GetFullModelName (provider ?s4) (req_Model ?r4) = Inl ''model not found''"
    by (simp add: ex_defs)
  note streamed = chat_done_framing [THEN conjunct2, THEN conjunct1, rule_format, OF h1]
  note answered = chat_done_framing [THEN conjunct1, rule_format, OF h2]
  note broken =
    chat_done_framing [THEN conjunct2, THEN conjunct2, THEN conjunct2, THEN conjunct2,
      THEN conjunct2, THEN conjunct2, rule_format, OF h3]
  note unresolved =
    chat_done_framing [THEN conjunct2, THEN conjunct2, THEN conjunct2, THEN conjunct1,
      rule_format, OF h4]
  from streamed [of example_clock] answered [of example_clock True] broken [of example_clock]
    unresolved [of example_clock True]
  show ?thesis by simp
qed

text \<open>
  Claim C1 as stated fails: a stream that breaks after two deltas leaves two
  \<^verbatim>\<open>done:false\<close> frames and an error line in the body, and no \<^verbatim>\<open>done:true\<close> frame.
\<close>

theorem chat_done_framing_counterexample:
  "frames (chat_handler
     (example_server no_chat (Inr (example_deltas, StreamError ''connection reset'')))
     example_clock True (Some (example_request ''gpt-4o-mini'' None))) =
   [responseJSON ''openai/gpt-4o-mini'' ''2025-01-01T00:00:00Z'' ''He'',
    responseJSON ''openai/gpt-4o-mini'' ''2025-01-01T00:00:00Z'' ''llo'',
    JObject [(''error'', JString ''Stream error: connection reset'')]]
   \<and> filter done_true (frames (chat_handler
     (example_server no_chat (Inr (example_deltas, StreamError ''connection reset'')))
     example_clock True (Some (example_request ''gpt-4o-mini'' None)))) = []"
  by (simp add: chat_handler_def chat_streaming_def ex_defs stream_headers_def
      not_done_true_responseJSON)

section \<open>Deltas without a choice\<close>

text \<open>
  The frames of a completed stream, for the record: when every delta has a choice, the
  handler writes one \<^verbatim>\<open>done:false\<close> line per delta, flushing after each, in the order
  of arrival, and the contents of these frames are the deltas' fragments.
\<close>

lemma chat_stream_relays_each_delta:
  assumes "GetFullModelName (provider s) (req_Model r) = Inr full" "req_Stream r \<noteq> Some False"
    "ChatStream (provider s) (req_Messages r) full = Inr (ds, EndOfStream)"
    "list_all has_choice ds"
  shows "chat_handler s now True (Some r) =
           [Backend (CallGetFullModelName (req_Model r)),
            Backend (CallChatStream (req_Messages r) full)] @ stream_headers @
           relayed (delta_frames now full 0 ds) @
           [WriteLine (finalResponse full (now (length ds))
              (if remembered '''' ds = '''' then ''stop'' else remembered '''' ds)),
            Flush, Close]"
    and "map content_of (delta_frames now full 0 ds) =
           map (\<lambda>d. DeltaContent (StreamChoices d ! 0)) ds"
  using chat_stream_completed [OF assms] by (simp_all add: content_delta_frames)

text \<open>
  Claim C2 fails on the code. A delta whose list of choices is empty is a delta the backend
  may send, and the loop itself reckons with it when it saves the finish reason; building
  the frame then reads \<^verbatim>\<open>response.Choices[0]\<close> unguarded and panics. On the stream
  \<^verbatim>\<open>"He"\<close>, \<^verbatim>\<open>"llo"\<close>, a delta without choices, end-of-stream, the run below writes
  two \<^verbatim>\<open>done:false\<close> lines, panics, and closes the stream: three deltas, two frames,
  no \<^verbatim>\<open>done:true\<close> line.
\<close>

theorem chat_stream_empty_delta_run:
  "chat_handler
     (example_server no_chat (Inr (example_deltas @ [empty_delta], EndOfStream)))
     example_clock True (Some (example_request ''gpt-4o-mini'' None)) =
   [Backend (CallGetFullModelName ''gpt-4o-mini''),
    Backend (CallChatStream [\<lparr>Role = ''user'', Content = ''hi''\<rparr>] ''openai/gpt-4o-mini'')] @
   stream_headers @
   [WriteLine (responseJSON ''openai/gpt-4o-mini'' ''2025-01-01T00:00:00Z'' ''He''), Flush,
    WriteLine (responseJSON ''openai/gpt-4o-mini'' ''2025-01-01T00:00:00Z'' ''llo''), Flush,
    Panic, Close]"
  by (simp add: chat_handler_def chat_streaming_def ex_defs stream_headers_def)

text \<open>
  Claim C9 fails on the code: building the \<^verbatim>\<open>done:false\<close> frame is not total. Whatever
  the state of the loop, a delta with an empty list of choices makes it panic at the
  access to the first choice, before anything is written for that delta.
\<close>

theorem stream_loop_empty_choices_panics:
  "stream_loop now fullModelName lastFinishReason k (\<lparr>StreamChoices = []\<rparr> # rest, e) = [Panic]"
  by simp

section \<open>Further facts about the receive loop\<close>

lemma status_relayed: "status (relayed vs @ es) = (if vs = [] then status es else Some 200)"
  by (cases vs) auto

lemma Close_notin_stream_loop: "Close \<notin> set (stream_loop now full lastFinishReason k (ds, e))"
proof (induction ds arbitrary: lastFinishReason k)
  case Nil
  then show ?case by (cases e) auto
next
  case (Cons d ds)
  then show ?case by (cases "StreamChoices d") (auto simp: Let_def)
qed

lemma model_role_responseJSON:
  "field ''model'' (responseJSON full created content) = Some (JString full)
   \<and> role_of (responseJSON full created content) = ''assistant''"
  by (simp add: responseJSON_def role_of_def message_of_def)

lemma model_role_finalResponse:
  "field ''model'' (finalResponse full created reason) = Some (JString full)
   \<and> role_of (finalResponse full created reason) = ''assistant''"
  by (simp add: finalResponse_def role_of_def message_of_def)

lemma model_role_ollamaResponse:
  "field ''model'' (ollamaResponse full created content reason u) = Some (JString full)
   \<and> role_of (ollamaResponse full created content reason u) = ''assistant''"
  by (simp add: ollamaResponse_def role_of_def message_of_def)

lemma is_error_frame_error_body [simp]: "is_error_frame (error_body msg)"
  by (simp add: is_error_frame_def error_body_def)

lemma is_error_frame_error [simp]: "is_error_frame (JObject [(''error'', v)])"
  by (simp add: is_error_frame_def)

lemma not_error_responseJSON [simp]: "\<not> is_error_frame (responseJSON full created content)"
  by (simp add: is_error_frame_def responseJSON_def)

lemma stream_loop_model_role:
  "v \<in> set (frames (stream_loop now full lastFinishReason k (ds, e))) \<Longrightarrow>
   is_error_frame v \<or> (field ''model'' v = Some (JString full) \<and> role_of v = ''assistant'')"
proof (induction ds arbitrary: lastFinishReason k)
  case Nil
  then show ?case by (cases e) (auto simp: model_role_finalResponse)
next
  case (Cons d ds)
  then show ?case
    by (cases "StreamChoices d") (auto simp: Let_def model_role_responseJSON)
qed

lemma no_error_delta_frames: "filter is_error_frame (delta_frames now full k ds) = []"
  by (induction ds arbitrary: k) auto

section \<open>Statuses of failed chat requests\<close>

text \<open>
  Claim C4, as amended. An alias that does not resolve is answered with 404, whether the
  request asks for streaming or not. A failed backend chat call, a completion without
  choices and a stream that cannot be opened are answered with 500. A stream that fails
  after it was opened cannot change the status any more: the answer keeps status 200 and
  its last line is the error, reported in-band.
\<close>
theorem chat_failure_status:
  "(GetFullModelName (provider s) (req_Model r) = Inl err
      \<longrightarrow> status (chat_handler s now fl (Some r)) = Some StatusNotFound)
   \<and> (GetFullModelName (provider s) (req_Model r) = Inr full \<and> req_Stream r = Some False \<and>
      (Chat (provider s) (req_Messages r) full = Inl err \<or>
       Chat (provider s) (req_Messages r) full = Inr resp \<and> Choices resp = [])
      \<longrightarrow> status (chat_handler s now fl (Some r)) = Some StatusInternalServerError)
   \<and> (GetFullModelName (provider s) (req_Model r) = Inr full \<and> req_Stream r \<noteq> Some False \<and>
      ChatStream (provider s) (req_Messages r) full = Inl err
      \<longrightarrow> status (chat_handler s now fl (Some r)) = Some StatusInternalServerError)
   \<and> (GetFullModelName (provider s) (req_Model r) = Inr full \<and> req_Stream r \<noteq> Some False \<and>
      ChatStream (provider s) (req_Messages r) full = Inr (ds, StreamError err) \<and>
      list_all has_choice ds
      \<longrightarrow> status (chat_handler s now True (Some r)) = Some StatusOK
          \<and> last (frames (chat_handler s now True (Some r))) =
              JObject [(''error'', JString (''Stream error: '' @ err))])"
proof -
  have unresolved: "status (chat_handler s now fl (Some r)) = Some StatusNotFound"
    if "GetFullModelName (provider s) (req_Model r) = Inl err"
    by (simp add: chat_unresolved [OF that])
  have failed: "status (chat_handler s now fl (Some r)) = Some StatusInternalServerError"
    if "GetFullModelName (provider s) (req_Model r) = Inr full" "req_Stream r = Some False"
      "Chat (provider s) (req_Messages r) full = Inl err \<or>
       Chat (provider s) (req_Messages r) full = Inr resp \<and> Choices resp = []"
    using that(3) chat_blocking_failed [OF that(1,2)] chat_blocking_no_choice [OF that(1,2)]
    by auto
  have not_opened: "status (chat_handler s now fl (Some r)) = Some StatusInternalServerError"
    if "GetFullModelName (provider s) (req_Model r) = Inr full" "req_Stream r \<noteq> Some False"
      "ChatStream (provider s) (req_Messages r) full = Inl err"
    by (simp add: chat_stream_not_opened [OF that])
  have broken: "status (chat_handler s now True (Some r)) = Some StatusOK
      \<and> last (frames (chat_handler s now True (Some r))) =
          JObject [(''error'', JString (''Stream error: '' @ err))]"
    if "GetFullModelName (provider s) (req_Model r) = Inr full" "req_Stream r \<noteq> Some False"
      "ChatStream (provider s) (req_Messages r) full = Inr (ds, StreamError err)"
      "list_all has_choice ds"
    using frames_chat_stream_completed [OF that, of now]
    by (simp add: chat_stream_completed [OF that] status_relayed StatusOK_def)
  show ?thesis
    using unresolved failed not_opened broken by blast
qed

text \<open>
  Claim C4 as stated fails: a backend failure on the chat route that is not a resolution
  failure, the stream breaking after two deltas, is answered with status 200, not 500.
\<close>
theorem chat_failure_status_counterexample:
  "status (chat_handler
     (example_server no_chat (Inr (example_deltas, StreamError ''connection reset'')))
     example_clock True (Some (example_request ''gpt-4o-mini'' None))) = Some 200"
  by (simp add: chat_handler_def chat_streaming_def ex_defs)


text \<open>
  On the example backend: an unknown alias with and without streaming, a failed chat call,
  a stream that does not open, and a stream that breaks.
\<close>
theorem chat_failure_status_witness:
  "status (chat_handler (example_server no_chat no_stream) example_clock True
      (Some (example_request ''llama'' None))) = Some 404
   \<and> status (chat_handler (example_server no_chat no_stream) example_clock True
      (Some (example_request ''llama'' (Some False)))) = Some 404
   \<and> status (chat_handler (example_server (Inl ''upstream unavailable'') no_stream) example_clock True
      (Some (example_request ''gpt-4o-mini'' (Some False)))) = Some 500
   \<and> status (chat_handler (example_server no_chat (Inl ''upstream unavailable'')) example_clock True
      (Some (example_request ''gpt-4o-mini'' None))) = Some 500
   \<and> status (chat_handler
      (example_server no_chat (Inr (example_deltas, StreamError ''connection reset'')))
      example_clock True (Some (example_request ''gpt-4o-mini'' None))) = Some 200"
proof -
  let ?full = "''openai/gpt-4o-mini''"
  let ?s0 = "example_server no_chat no_stream"
  have h1: "GetFullModelName (provider ?s0) (req_Model (example_request ''llama'' None)) =
      Inl ''model not found''"
    by (simp add: ex_defs)
  have h2: "GetFullModelName (provider ?s0) (req_Model (example_request ''llama'' (Some False))) =
      Inl ''model not found''"
    by (simp add: ex_defs)
  let ?s3 = "example_server (Inl ''upstream unavailable'') no_stream"
  let ?r3 = "example_request ''gpt-4o-mini'' (Some False)"
  have h3: "GetFullModelName (provider ?s3) (req_Model ?r3) = Inr ?full \<and>
      req_Stream ?r3 = Some False \<and>
      (Chat (provider ?s3) (req_Messages ?r3) ?full = Inl ''upstream unavailable'' \<or>
       Chat (provider ?s3) (req_Messages ?r3) ?full = Inr example_completion \<and>
       Choices example_completion = [])"
    by (simp add: ex_defs)
  let ?s4 = "example_server no_chat (Inl ''upstream unavailable'')"
  let ?r4 = "example_request ''gpt-4o-mini'' None"
  have h4: "GetFullModelName (provider ?s4) (req_Model ?r4) = Inr ?full \<and>
      req_Stream ?r4 \<noteq> Some False \<and>
      ChatStream (provider ?s4) (req_Messages ?r4) ?full = Inl ''upstream unavailable''"
    by (simp add: ex_defs)
  let ?s5 = "example_server no_chat (Inr (example_deltas, StreamError ''connection reset''))"
  have h5: "GetFullModelName (provider ?s5) (req_Model ?r4) = Inr ?full \<and>
      req_Stream ?r4 \<noteq> Some False \<and>
      ChatStream (provider ?s5) (req_Messages ?r4) ?full =
        Inr (example_deltas, StreamError ''connection reset'') \<and>
      list_all has_choice example_deltas"
    by (simp add: ex_defs has_choice_def)
  note c1 = chat_failure_status [THEN conjunct1, rule_format, OF h1, of example_clock True]
  note c2 = chat_failure_status [THEN conjunct1, rule_format, OF h2, of example_clock True]
  note c3 = chat_failure_status [THEN conjunct2, THEN conjunct1, rule_format, OF h3,
      of example_clock True]
  note c4 = chat_failure_status [THEN conjunct2, THEN conjunct2, THEN conjunct1, rule_format,
      OF h4, of example_clock True]
  note c5 = chat_failure_status [THEN conjunct2, THEN conjunct2, THEN conjunct2, rule_format,
      OF h5, of example_clock]
  from c1 c2 c3 c4 c5 show ?thesis
    by (simp add: StatusOK_def StatusNotFound_def StatusInternalServerError_def)
qed

section \<open>A stream that fails, and the release of the stream\<close>

text \<open>
  Claim C5. Once the stream is open, every run of the handler ends with the release of the
  stream, exactly once, whatever the deltas, the end of the stream and the outcome of the
  flusher assertion. When the stream fails after deltas that each carry a choice, the
  handler has relayed those deltas, writes exactly one error line, flushes, and returns:
  the body has that one error frame and no \<^verbatim>\<open>done:true\<close> frame.
\<close>
theorem chat_stream_released:
  assumes "GetFullModelName (provider s) (req_Model r) = Inr full"
    and "req_Stream r \<noteq> Some False"
    and "ChatStream (provider s) (req_Messages r) full = Inr (ds, e)"
  shows "count_list (chat_handler s now fl (Some r)) Close = 1
         \<and> last (chat_handler s now fl (Some r)) = Close
         \<and> (e = StreamError err \<and> list_all has_choice ds \<longrightarrow>
              chat_handler s now True (Some r) =
                [Backend (CallGetFullModelName (req_Model r)),
                 Backend (CallChatStream (req_Messages r) full)] @ stream_headers @
                relayed (delta_frames now full 0 ds) @
                [WriteLine (JObject [(''error'', JString (''Stream error: '' @ err))]), Flush, Close]
              \<and> filter is_error_frame (frames (chat_handler s now True (Some r))) =
                  [JObject [(''error'', JString (''Stream error: '' @ err))]]
              \<and> filter done_true (frames (chat_handler s now True (Some r))) = [])"
proof -
  have run: "chat_handler s now fl (Some r) =
      [Backend (CallGetFullModelName (req_Model r)), Backend (CallChatStream (req_Messages r) full)] @
      stream_headers @ (if fl then stream_loop now full '''' 0 (ds, e) else []) @ [Close]"
    by (rule chat_stream_opened [OF assms])
  have once: "count_list (chat_handler s now fl (Some r)) Close = 1"
    unfolding run using Close_notin_stream_loop [of now full "''''" 0 ds e]
    by (simp add: stream_headers_def count_list_0_iff)
  have at_end: "last (chat_handler s now fl (Some r)) = Close"
    unfolding run by simp
  have broken:
    "chat_handler s now True (Some r) =
       [Backend (CallGetFullModelName (req_Model r)),
        Backend (CallChatStream (req_Messages r) full)] @ stream_headers @
       relayed (delta_frames now full 0 ds) @
       [WriteLine (JObject [(''error'', JString (''Stream error: '' @ err))]), Flush, Close]
     \<and> filter is_error_frame (frames (chat_handler s now True (Some r))) =
         [JObject [(''error'', JString (''Stream error: '' @ err))]]
     \<and> filter done_true (frames (chat_handler s now True (Some r))) = []"
    if "e = StreamError err" "list_all has_choice ds"
  proof -
    have opened: "ChatStream (provider s) (req_Messages r) full = Inr (ds, StreamError err)"
      using assms(3) that(1) by simp
    show ?thesis
      using frames_chat_stream_completed [OF assms(1,2) opened that(2), of now]
      by (simp add: chat_stream_completed [OF assms(1,2) opened that(2)]
          no_done_true_delta_frames no_error_delta_frames)
  qed
  from once at_end broken show ?thesis by blast
qed


text \<open>The stream of the example breaking after its two deltas.\<close>
theorem chat_stream_released_witness:
  "count_list (chat_handler
      (example_server no_chat (Inr (example_deltas, StreamError ''connection reset'')))
      example_clock True (Some (example_request ''gpt-4o-mini'' None))) Close = 1
   \<and> last (chat_handler
      (example_server no_chat (Inr (example_deltas, StreamError ''connection reset'')))
      example_clock True (Some (example_request ''gpt-4o-mini'' None))) = Close
   \<and> filter is_error_frame (frames (chat_handler
      (example_server no_chat (Inr (example_deltas, StreamError ''connection reset'')))
      example_clock True (Some (example_request ''gpt-4o-mini'' None)))) =
      [JObject [(''error'', JString ''Stream error: connection reset'')]]
   \<and> filter done_true (frames (chat_handler
      (example_server no_chat (Inr (example_deltas, StreamError ''connection reset'')))
      example_clock True (Some (example_request ''gpt-4o-mini'' None)))) = []"
proof -
  let ?full = "''openai/gpt-4o-mini''"
  let ?s = "example_server no_chat (Inr (example_deltas, StreamError ''connection reset''))"
  let ?r = "example_request ''gpt-4o-mini'' None"
  have h1: "GetFullModelName (provider ?s) (req_Model ?r) = Inr ?full"
    by (simp add: ex_defs)
  have h2: "req_Stream ?r \<noteq> Some False"
    by (simp add: ex_defs)
  have h3: "ChatStream (provider ?s) (req_Messages ?r) ?full =
      Inr (example_deltas, StreamError ''connection reset'')"
    by (simp add: ex_defs)
  have h4: "StreamError ''connection reset'' = StreamError ''connection reset'' \<and>
      list_all has_choice example_deltas"
    by (simp add: ex_defs has_choice_def)
  note released = chat_stream_released [OF h1 h2 h3,
      where now = example_clock and fl = True and err = "''connection reset''"]
  note broken = released [THEN conjunct2, THEN conjunct2, rule_format, OF h4]
  from released [THEN conjunct1] released [THEN conjunct2, THEN conjunct1]
    broken [THEN conjunct2, THEN conjunct1] broken [THEN conjunct2, THEN conjunct2]
  show ?thesis by simp
qed

section \<open>The blocking answer\<close>

text \<open>
  The durations are products in Go's \<^verbatim>\<open>int\<close>. As long as ten times the token count
  fits 64 bits, they are the products of the integers.
\<close>
lemma duration_no_overflow:
  fixes tokens :: go_int
  assumes "0 \<le> sint tokens" and "sint tokens * 10 < 2 ^ 63"
  shows "sint (tokens * 10) = sint tokens * 10"
proof -
  have "sint (tokens * 10) = signed_take_bit 63 (sint tokens * 10)"
    by (simp add: sint_word_ariths)
  also have "\<dots> = sint tokens * 10"
    using assms by (intro signed_take_bit_int_eq_self) auto
  finally show ?thesis .
qed

text \<open>
  Claim C6, as amended. For a request with \<^verbatim>\<open>stream:false\<close>: when the alias does not
  resolve, the answer is a 404 with an error object and the backend chat call is not
  issued; when the alias resolves and the backend call fails or returns no choice, the
  answer is a 500 with an error object; otherwise the handler writes exactly one JSON
  object, with status 200, \<^verbatim>\<open>done:true\<close>, the content of the first choice, the finish
  reason of the first choice or \<^verbatim>\<open>stop\<close> when that is empty, and \<^verbatim>\<open>total_duration\<close>
  and \<^verbatim>\<open>eval_duration\<close> equal to ten times the total and the completion token count,
  computed in Go's \<^verbatim>\<open>int\<close>.
\<close>

theorem chat_blocking_answer:
  assumes "req_Stream r = Some False"
  shows "(GetFullModelName (provider s) (req_Model r) = Inl err
            \<longrightarrow> chat_handler s now fl (Some r) =
                  [Backend (CallGetFullModelName (req_Model r)),
                   JSON StatusNotFound (error_body err)])
       \<and> (GetFullModelName (provider s) (req_Model r) = Inr full \<and>
          (Chat (provider s) (req_Messages r) full = Inl err \<or>
           Chat (provider s) (req_Messages r) full = Inr resp \<and> Choices resp = [])
            \<longrightarrow> status (chat_handler s now fl (Some r)) = Some StatusInternalServerError
                \<and> list_all is_error_frame (frames (chat_handler s now fl (Some r)))
                \<and> length (frames (chat_handler s now fl (Some r))) = 1)
       \<and> (GetFullModelName (provider s) (req_Model r) = Inr full \<and>
          Chat (provider s) (req_Messages r) full = Inr resp \<and> Choices resp = c # cs
            \<longrightarrow> (\<exists>v. chat_handler s now fl (Some r) =
                     [Backend (CallGetFullModelName (req_Model r)),
                      Backend (CallChat (req_Messages r) full), JSON StatusOK v]
                  \<and> done_true v
                  \<and> content_of v = Content (Message c)
                  \<and> field ''finish_reason'' v =
                      Some (JString (if FinishReason c = '''' then ''stop'' else FinishReason c))
                  \<and> field ''total_duration'' v =
                      Some (JInt (sint (TotalTokens (Usage resp) * 10)))
                  \<and> field ''eval_duration'' v =
                      Some (JInt (sint (CompletionTokens (Usage resp) * 10)))))"
proof -
  have unresolved: "chat_handler s now fl (Some r) =
      [Backend (CallGetFullModelName (req_Model r)), JSON StatusNotFound (error_body err)]"
    if "GetFullModelName (provider s) (req_Model r) = Inl err"
    by (rule chat_unresolved [OF that])
  have failed: "status (chat_handler s now fl (Some r)) = Some StatusInternalServerError
      \<and> list_all is_error_frame (frames (chat_handler s now fl (Some r)))
      \<and> length (frames (chat_handler s now fl (Some r))) = 1"
    if "GetFullModelName (provider s) (req_Model r) = Inr full"
      "Chat (provider s) (req_Messages r) full = Inl err \<or>
       Chat (provider s) (req_Messages r) full = Inr resp \<and> Choices resp = []"
    using that(2) chat_blocking_failed [OF that(1) assms]
      chat_blocking_no_choice [OF that(1) assms]
    by auto
  have answered: "\<exists>v. chat_handler s now fl (Some r) =
         [Backend (CallGetFullModelName (req_Model r)),
          Backend (CallChat (req_Messages r) full), JSON StatusOK v]
      \<and> done_true v
      \<and> content_of v = Content (Message c)
      \<and> field ''finish_reason'' v =
          Some (JString (if FinishReason c = '''' then ''stop'' else FinishReason c))
      \<and> field ''total_duration'' v = Some (JInt (sint (TotalTokens (Usage resp) * 10)))
      \<and> field ''eval_duration'' v = Some (JInt (sint (CompletionTokens (Usage resp) * 10)))"
    if "GetFullModelName (provider s) (req_Model r) = Inr full"
      "Chat (provider s) (req_Messages r) full = Inr resp" "Choices resp = c # cs"
    unfolding chat_blocking_ok [OF that(1) assms that(2,3)]
    by (simp add: done_true_ollamaResponse)
       (simp add: ollamaResponse_def content_of_def message_of_def)
  from unresolved failed answered show ?thesis by blast
qed

text \<open>
  On the example backend: the example of the specification, with the finish reason left
  out by the backend (one choice \<^verbatim>\<open>hello\<close>, 3 + 4 = 7 tokens), a failed chat call, and
  an unknown alias.
\<close>

theorem chat_blocking_answer_witness:
  "chat_handler (example_server (Inr example_completion) no_stream) example_clock True
      (Some (example_request ''gpt-4o-mini'' (Some False))) =
     [Backend (CallGetFullModelName ''gpt-4o-mini''),
      Backend (CallChat [\<lparr>Role = ''user'', Content = ''hi''\<rparr>] ''openai/gpt-4o-mini''),
      JSON 200 (JObject
        [(''model'', JString ''openai/gpt-4o-mini''),
         (''created_at'', JString ''2025-01-01T00:00:00Z''),
         (''message'', JObject [(''role'', JString ''assistant''), (''content'', JString ''hello'')]),
         (''done'', JBool True),
         (''finish_reason'', JString ''stop''),
         (''total_duration'', JInt 70),
         (''load_duration'', JInt 0),
         (''prompt_eval_count'', JInt 3),
         (''eval_count'', JInt 4),
         (''eval_duration'', JInt 40)])]
   \<and> status (chat_handler (example_server (Inl ''upstream unavailable'') no_stream)
      example_clock True (Some (example_request ''gpt-4o-mini'' (Some False)))) = Some 500
   \<and> chat_handler (example_server (Inr example_completion) no_stream) example_clock True
      (Some (example_request ''llama'' (Some False))) =
     [Backend (CallGetFullModelName ''llama''),
      JSON 404 (JObject [(''error'', JString ''model not found'')])]"
proof -
  let ?full = "''openai/gpt-4o-mini''"
  let ?r = "example_request ''gpt-4o-mini'' (Some False)"
  let ?r3 = "example_request ''llama'' (Some False)"
  let ?s1 = "example_server (Inr example_completion) no_stream"
  let ?s2 = "example_server (Inl ''upstream unavailable'') no_stream"
  have r: "req_Stream ?r = Some False"
    by (simp add: ex_defs)
  have r3: "req_Stream ?r3 = Some False"
    by (simp add: ex_defs)
  have ok: "GetFullModelName (provider ?s1) (req_Model ?r) = Inr ?full \<and>
      Chat (provider ?s1) (req_Messages ?r) ?full = Inr example_completion \<and>
      Choices example_completion =
        \<lparr>Message = \<lparr>Role = ''assistant'', Content = ''hello''\<rparr>, FinishReason = ''''\<rparr> # []"
    by (simp add: ex_defs)
  have ko: "GetFullModelName (provider ?s2) (req_Model ?r) = Inr ?full \<and>
      (Chat (provider ?s2) (req_Messages ?r) ?full = Inl ''upstream unavailable'' \<or>
       Chat (provider ?s2) (req_Messages ?r) ?full = Inr example_completion \<and>
       Choices example_completion = [])"
    by (simp add: ex_defs)
  have unknown: "GetFullModelName (provider ?s1) (req_Model ?r3) = Inl ''model not found''"
    by (simp add: ex_defs)
  from chat_blocking_answer [OF r, THEN conjunct2, THEN conjunct2, rule_format, OF ok,
      of example_clock True]
  obtain v where run: "chat_handler ?s1 example_clock True (Some ?r) =
      [Backend (CallGetFullModelName (req_Model ?r)),
       Backend (CallChat (req_Messages ?r) ?full), JSON StatusOK v]"
    by blast
  have answered: "chat_handler ?s1 example_clock True (Some ?r) =
      [Backend (CallGetFullModelName ''gpt-4o-mini''),
       Backend (CallChat [\<lparr>Role = ''user'', Content = ''hi''\<rparr>] ?full),
       JSON 200 (JObject
        [(''model'', JString ''openai/gpt-4o-mini''),
         (''created_at'', JString ''2025-01-01T00:00:00Z''),
         (''message'', JObject [(''role'', JString ''assistant''), (''content'', JString ''hello'')]),
         (''done'', JBool True),
         (''finish_reason'', JString ''stop''),
         (''total_duration'', JInt 70),
         (''load_duration'', JInt 0),
         (''prompt_eval_count'', JInt 3),
         (''eval_count'', JInt 4),
         (''eval_duration'', JInt 40)])]"
    using run
    by (simp add: chat_handler_def chat_blocking_def ex_defs StatusOK_def ollamaResponse_def
        message_of_def)
  from chat_blocking_answer [OF r, THEN conjunct2, THEN conjunct1, rule_format, OF ko,
      of example_clock True]
  have failed: "status (chat_handler ?s2 example_clock True (Some ?r)) = Some 500"
    by (simp add: StatusInternalServerError_def)
  from chat_blocking_answer [OF r3, THEN conjunct1, rule_format, OF unknown,
      of example_clock True]
  have unresolved: "chat_handler ?s1 example_clock True (Some ?r3) =
      [Backend (CallGetFullModelName ''llama''),
       JSON 404 (JObject [(''error'', JString ''model not found'')])]"
    by (simp add: StatusNotFound_def error_body_def example_request_def)
  from answered failed unresolved show ?thesis by (intro conjI)
qed

text \<open>
  Claim C6 as stated fails: a \<^verbatim>\<open>stream:false\<close> request whose alias does not resolve is
  answered with 404, which is neither the generic server error nor a \<^verbatim>\<open>done:true\<close>
  object, and this although the backend would answer the chat call with one choice.
\<close>

theorem chat_blocking_answer_counterexample:
  "status (chat_handler (example_server (Inr example_completion) no_stream) example_clock True
      (Some (example_request ''llama'' (Some False)))) = Some 404
   \<and> filter done_true (frames (chat_handler (example_server (Inr example_completion) no_stream)
      example_clock True (Some (example_request ''llama'' (Some False))))) = []
   \<and> calls (chat_handler (example_server (Inr example_completion) no_stream) example_clock True
      (Some (example_request ''llama'' (Some False)))) = [CallGetFullModelName ''llama'']"
  by (simp add: chat_handler_def chat_blocking_def ex_defs StatusNotFound_def error_body_def)

section \<open>Bad requests\<close>



section \<open>The model and the role of every chat frame\<close>

lemma not_error_finalResponse [simp]: "\<not> is_error_frame (finalResponse full created reason)"
  by (simp add: is_error_frame_def finalResponse_def)

lemma not_error_ollamaResponse [simp]:
  "\<not> is_error_frame (ollamaResponse full created content reason u)"
  by (simp add: is_error_frame_def ollamaResponse_def)

lemma chat_frame_of_delta_frames:
  "list_all (\<lambda>v. done_false v \<and> chat_frame_of full v) (delta_frames now full k ds)"
  by (induction ds arbitrary: k)
     (auto simp: chat_frame_of_def done_false_responseJSON model_role_responseJSON)

text \<open>
  Claim C10. The answer of the blocking branch is one \<^verbatim>\<open>done:true\<close> object that is not
  an error object, carries as \<^verbatim>\<open>model\<close> the identifier the alias resolved to, and has the
  role \<^verbatim>\<open>assistant\<close>. In the streaming branch the same holds of each of the
  \<^verbatim>\<open>done:false\<close> frames, one per delta, and of the final \<^verbatim>\<open>done:true\<close> frame. On every
  path of the handler, the only frames that are not of this kind are error objects; and
  where the resolved identifier differs from the alias of the request, no chat frame
  carries the alias as its \<^verbatim>\<open>model\<close>.
\<close>

theorem chat_frames_model_role:
  "(\<forall>v \<in> set (frames (chat_handler s now fl body)). \<not> is_error_frame v \<longrightarrow>
      (\<exists>r full. body = Some r \<and> GetFullModelName (provider s) (req_Model r) = Inr full \<and>
         field ''model'' v = Some (JString full) \<and> role_of v = ''assistant'' \<and>
         (full \<noteq> req_Model r \<longrightarrow> field ''model'' v \<noteq> Some (JString (req_Model r)))))
   \<and> (GetFullModelName (provider s) (req_Model r) = Inr full \<and> req_Stream r = Some False \<and>
      Chat (provider s) (req_Messages r) full = Inr resp \<and> Choices resp \<noteq> []
      \<longrightarrow> (\<exists>v. frames (chat_handler s now fl (Some r)) = [v] \<and> done_true v \<and>
               chat_frame_of full v))
   \<and> (GetFullModelName (provider s) (req_Model r) = Inr full \<and> req_Stream r \<noteq> Some False \<and>
      ChatStream (provider s) (req_Messages r) full = Inr (ds, e) \<and> list_all has_choice ds
      \<longrightarrow> length (frames (chat_handler s now True (Some r))) = Suc (length ds)
          \<and> list_all (\<lambda>v. done_false v \<and> chat_frame_of full v)
               (take (length ds) (frames (chat_handler s now True (Some r)))))
   \<and> (GetFullModelName (provider s) (req_Model r) = Inr full \<and> req_Stream r \<noteq> Some False \<and>
      ChatStream (provider s) (req_Messages r) full = Inr (ds, EndOfStream) \<and>
      list_all has_choice ds
      \<longrightarrow> done_true (last (frames (chat_handler s now True (Some r))))
          \<and> chat_frame_of full (last (frames (chat_handler s now True (Some r)))))"
proof -
  have every: "\<forall>v \<in> set (frames (chat_handler s now fl body)). \<not> is_error_frame v \<longrightarrow>
     (\<exists>r full. body = Some r \<and> GetFullModelName (provider s) (req_Model r) = Inr full \<and>
        field ''model'' v = Some (JString full) \<and> role_of v = ''assistant'')"
  proof (cases body)
    case None
    then show ?thesis by (simp add: chat_handler_None)
  next
    case (Some r)
    show ?thesis
    proof (cases "GetFullModelName (provider s) (req_Model r)")
      case (Inl err)
      then show ?thesis using Some by (simp add: chat_unresolved)
    next
      case full: (Inr full)
      show ?thesis
      proof (cases "req_Stream r = Some False")
        case True
        show ?thesis
        proof (cases "Chat (provider s) (req_Messages r) full")
          case (Inl err)
          then show ?thesis using Some full True by (simp add: chat_blocking_failed)
        next
          case (Inr resp)
          then show ?thesis using Some full True
            by (cases "Choices resp")
               (simp_all add: chat_blocking_no_choice chat_blocking_ok model_role_ollamaResponse)
        qed
      next
        case False
        show ?thesis
        proof (cases "ChatStream (provider s) (req_Messages r) full")
          case (Inl err)
          then show ?thesis using Some full False by (simp add: chat_stream_not_opened)
        next
          case (Inr st)
          obtain ds e where st: "st = (ds, e)" by (cases st)
          show ?thesis
            using Some full False Inr st stream_loop_model_role [of _ now full "''''" 0 ds e]
            by (auto simp: chat_stream_opened frames_append simp del: stream_loop.simps)
        qed
      qed
    qed
  qed
  have never_alias: "\<forall>v \<in> set (frames (chat_handler s now fl body)). \<not> is_error_frame v \<longrightarrow>
      (\<exists>r full. body = Some r \<and> GetFullModelName (provider s) (req_Model r) = Inr full \<and>
         field ''model'' v = Some (JString full) \<and> role_of v = ''assistant'' \<and>
         (full \<noteq> req_Model r \<longrightarrow> field ''model'' v \<noteq> Some (JString (req_Model r))))"
  proof (intro ballI impI)
    fix v
    assume "v \<in> set (frames (chat_handler s now fl body))" "\<not> is_error_frame v"
    with every obtain r full where
      "body = Some r" "GetFullModelName (provider s) (req_Model r) = Inr full"
      "field ''model'' v = Some (JString full)" "role_of v = ''assistant''"
      by blast
    then show "\<exists>r full. body = Some r \<and> GetFullModelName (provider s) (req_Model r) = Inr full \<and>
         field ''model'' v = Some (JString full) \<and> role_of v = ''assistant'' \<and>
         (full \<noteq> req_Model r \<longrightarrow> field ''model'' v \<noteq> Some (JString (req_Model r)))"
      by auto
  qed
  have blocking: "\<exists>v. frames (chat_handler s now fl (Some r)) = [v] \<and> done_true v \<and>
      chat_frame_of full v"
    if "GetFullModelName (provider s) (req_Model r) = Inr full" "req_Stream r = Some False"
      "Chat (provider s) (req_Messages r) full = Inr resp" "Choices resp \<noteq> []"
  proof -
    from that(4) obtain c cs where "Choices resp = c # cs" by (cases "Choices resp") auto
    from chat_blocking_ok [OF that(1-3) this] show ?thesis
      by (simp add: done_true_ollamaResponse chat_frame_of_def model_role_ollamaResponse)
  qed
  have relayed: "length (frames (chat_handler s now True (Some r))) = Suc (length ds)
      \<and> list_all (\<lambda>v. done_false v \<and> chat_frame_of full v)
           (take (length ds) (frames (chat_handler s now True (Some r))))"
    if "GetFullModelName (provider s) (req_Model r) = Inr full" "req_Stream r \<noteq> Some False"
      "ChatStream (provider s) (req_Messages r) full = Inr (ds, e)" "list_all has_choice ds"
  proof -
    have "frames (chat_handler s now True (Some r)) =
        delta_frames now full 0 ds @
        frames (stream_loop now full (remembered '''' ds) (length ds) ([], e) @ [Close])"
      by (rule frames_chat_stream_completed [OF that])
    moreover have "length (frames (stream_loop now full (remembered '''' ds) (length ds) ([], e)
        @ [Close])) = 1"
      by (cases e) simp_all
    ultimately show ?thesis
      by (simp add: length_delta_frames chat_frame_of_delta_frames)
  qed
  have ended: "done_true (last (frames (chat_handler s now True (Some r))))
      \<and> chat_frame_of full (last (frames (chat_handler s now True (Some r))))"
    if "GetFullModelName (provider s) (req_Model r) = Inr full" "req_Stream r \<noteq> Some False"
      "ChatStream (provider s) (req_Messages r) full = Inr (ds, EndOfStream)"
      "list_all has_choice ds"
    using frames_chat_stream_completed [OF that, of now]
    by (simp add: done_true_finalResponse chat_frame_of_def model_role_finalResponse)
  from never_alias blocking relayed ended show ?thesis by blast
qed

text \<open>
  The blocking answer of the example backend, and the three frames of its completed
  stream; the alias \<^verbatim>\<open>gpt-4o-mini\<close> is the \<^verbatim>\<open>model\<close> of none of them.
\<close>

theorem chat_frames_model_role_witness:
  "(\<exists>v. frames (chat_handler (example_server (Inr example_completion) no_stream)
        example_clock True (Some (example_request ''gpt-4o-mini'' (Some False)))) = [v]
      \<and> done_true v \<and> chat_frame_of ''openai/gpt-4o-mini'' v)
   \<and> frames (chat_handler (example_server no_chat (Inr (example_deltas, EndOfStream)))
      example_clock True (Some (example_request ''gpt-4o-mini'' None))) =
     [responseJSON ''openai/gpt-4o-mini'' ''2025-01-01T00:00:00Z'' ''He'',
      responseJSON ''openai/gpt-4o-mini'' ''2025-01-01T00:00:00Z'' ''llo'',
      finalResponse ''openai/gpt-4o-mini'' ''2025-01-01T00:00:00Z'' ''stop'']
   \<and> list_all (\<lambda>v. done_false v \<and> chat_frame_of ''openai/gpt-4o-mini'' v)
       (take (length example_deltas)
          (frames (chat_handler (example_server no_chat (Inr (example_deltas, EndOfStream)))
             example_clock True (Some (example_request ''gpt-4o-mini'' None)))))
   \<and> done_true (last
       (frames (chat_handler (example_server no_chat (Inr (example_deltas, EndOfStream)))
          example_clock True (Some (example_request ''gpt-4o-mini'' None)))))
   \<and> chat_frame_of ''openai/gpt-4o-mini'' (last
       (frames (chat_handler (example_server no_chat (Inr (example_deltas, EndOfStream)))
          example_clock True (Some (example_request ''gpt-4o-mini'' None)))))
   \<and> list_all (\<lambda>v. field ''model'' v \<noteq> Some (JString ''gpt-4o-mini''))
       (frames (chat_handler (example_server no_chat (Inr (example_deltas, EndOfStream)))
          example_clock True (Some (example_request ''gpt-4o-mini'' None))))"
proof -
  let ?full = "''openai/gpt-4o-mini''"
  let ?s1 = "example_server no_chat (Inr (example_deltas, EndOfStream))"
  let ?r1 = "example_request ''gpt-4o-mini'' None"
  let ?s2 = "example_server (Inr example_completion) no_stream"
  let ?r2 = "example_request ''gpt-4o-mini'' (Some False)"
  have h1: "GetFullModelName (provider ?s1) (req_Model ?r1) = Inr ?full \<and>
      req_Stream ?r1 \<noteq> Some False \<and>
      ChatStream (provider ?s1) (req_Messages ?r1) ?full = Inr (example_deltas, EndOfStream) \<and>
      list_all has_choice example_deltas"
    by (simp add: ex_defs has_choice_def)
  have h2: "GetFullModelName (provider ?s2) (req_Model ?r2) = Inr ?full \<and>
      req_Stream ?r2 = Some False \<and>
      Chat (provider ?s2) (req_Messages ?r2) ?full = Inr example_completion \<and>
      Choices example_completion \<noteq> []"
    by (simp add: ex_defs)
  note answered = chat_frames_model_role [THEN conjunct2, THEN conjunct1, rule_format, OF h2,
      of example_clock True]
  note relayed = chat_frames_model_role [THEN conjunct2, THEN conjunct2, THEN conjunct1,
      rule_format, OF h1, of example_clock]
  note ended = chat_frames_model_role [THEN conjunct2, THEN conjunct2, THEN conjunct2,
      rule_format, OF h1, of example_clock]
  note every = chat_frames_model_role [THEN conjunct1, of ?s1 example_clock True "Some ?r1"]
  have fr: "frames (chat_handler ?s1 example_clock True (Some ?r1)) =
     [responseJSON ?full ''2025-01-01T00:00:00Z'' ''He'',
      responseJSON ?full ''2025-01-01T00:00:00Z'' ''llo'',
      finalResponse ?full ''2025-01-01T00:00:00Z'' ''stop'']"
    by (simp add: chat_handler_def chat_streaming_def ex_defs)
  have res: "GetFullModelName (provider ?s1) (req_Model ?r1) = Inr ?full"
      "req_Model ?r1 = ''gpt-4o-mini''"
    by (simp_all add: ex_defs)
  have "\<forall>v \<in> set (frames (chat_handler ?s1 example_clock True (Some ?r1))).
      \<not> is_error_frame v \<longrightarrow> field ''model'' v \<noteq> Some (JString ''gpt-4o-mini'')"
    using every res by auto
  then have no_alias: "list_all (\<lambda>v. field ''model'' v \<noteq> Some (JString ''gpt-4o-mini''))
      (frames (chat_handler ?s1 example_clock True (Some ?r1)))"
    unfolding fr by simp
  from answered fr relayed [THEN conjunct2] ended [THEN conjunct1] ended [THEN conjunct2] no_alias
  show ?thesis by (intro conjI)
qed

section \<open>The filter file\<close>

lemma scan_loop_short:
  "\<forall>raw \<in> set lines. length raw < MaxScanTokenSize \<Longrightarrow>
   scan_loop lines flt =
     Inr (flt |\<union>| fset_of_list (filter (\<lambda>line. line \<noteq> '''') (map (\<lambda>raw. TrimSpace (dropCR raw)) lines)))"
  by (induction lines arbitrary: flt) (auto simp: Let_def)

lemma scan_loop_too_long:
  "\<exists>raw \<in> set lines. MaxScanTokenSize \<le> length raw \<Longrightarrow> scan_loop lines flt = Inl ErrTooLong"
  by (induction lines arbitrary: flt) (auto simp: Let_def)

lemma raw_lines_no_newline:
  "CHR 0x0A \<notin> set cur \<Longrightarrow> \<forall>raw \<in> set (raw_lines cur bytes). CHR 0x0A \<notin> set raw"
proof (induction bytes arbitrary: cur)
  case Nil
  then show ?case by simp
next
  case (Cons c cs)
  show ?case
  proof (cases "c = CHR 0x0A")
    case True
    with Cons.prems Cons.IH [of "[]"] show ?thesis by simp
  next
    case False
    with Cons.prems Cons.IH [of "cur @ [c]"] show ?thesis by simp
  qed
qed

lemma leading_space_0_iff: "leading_space s = 0 \<longleftrightarrow> (\<forall>r \<in> set space_runes. \<not> prefix r s)"
proof -
  have "[] \<notin> set space_runes" by (simp add: space_runes_def)
  then show ?thesis
    by (auto simp: leading_space_def find_None_iff split: option.splits dest!: find_Some_iff [THEN iffD1])
       (metis length_0_conv nth_mem)+
qed


lemma trailing_space_0_iff: "trailing_space s = 0 \<longleftrightarrow> (\<forall>r \<in> set space_runes. \<not> suffix r s)"
proof -
  have "[] \<notin> set space_runes" by (simp add: space_runes_def)
  then show ?thesis
    by (auto simp: trailing_space_def find_None_iff split: option.splits dest!: find_Some_iff [THEN iffD1])
       (metis nth_mem)+
qed

lemma TrimLeft_no_leading_space: "leading_space (TrimLeft s) = 0"
proof (induction s rule: TrimLeft.induct)
  case (1 s)
  show ?case
  proof (cases "s = [] \<or> leading_space s = 0")
    case True
    then show ?thesis
      by (subst TrimLeft.simps) (auto simp: leading_space_0_iff space_runes_def)
  next
    case False
    with 1 show ?thesis by (subst TrimLeft.simps) simp
  qed
qed

lemma TrimRight_no_trailing_space: "trailing_space (TrimRight s) = 0"
proof (induction s rule: TrimRight.induct)
  case (1 s)
  show ?case
  proof (cases "s = [] \<or> trailing_space s = 0")
    case True
    then show ?thesis
      by (subst TrimRight.simps) (auto simp: trailing_space_0_iff space_runes_def)
  next
    case False
    with 1 show ?thesis by (subst TrimRight.simps) simp
  qed
qed

lemma TrimRight_prefix: "prefix (TrimRight s) s"
proof (induction s rule: TrimRight.induct)
  case (1 s)
  show ?case
  proof (cases "s = [] \<or> trailing_space s = 0")
    case True
    then show ?thesis by (subst TrimRight.simps) simp
  next
    case False
    with 1 have "prefix (TrimRight (take (length s - trailing_space s) s))
        (take (length s - trailing_space s) s)"
      by simp
    also have "prefix (take (length s - trailing_space s) s) s"
      by (rule take_is_prefix)
    finally show ?thesis using False by (subst TrimRight.simps) simp
  qed
qed

lemma TrimLeft_suffix: "suffix (TrimLeft s) s"
proof (induction s rule: TrimLeft.induct)
  case (1 s)
  show ?case
  proof (cases "s = [] \<or> leading_space s = 0")
    case True
    then show ?thesis by (subst TrimLeft.simps) simp
  next
    case False
    with 1 have "suffix (TrimLeft (drop (leading_space s) s)) (drop (leading_space s) s)"
      by simp
    also have "suffix (drop (leading_space s) s) s"
      by (rule suffix_drop)
    finally show ?thesis using False by (subst TrimLeft.simps) simp
  qed
qed

lemma TrimSpace_trimmed:
  "leading_space (TrimSpace s) = 0 \<and> trailing_space (TrimSpace s) = 0 \<and> sublist (TrimSpace s) s"
proof -
  have "leading_space (TrimRight (TrimLeft s)) = 0"
    using TrimLeft_no_leading_space [of s] TrimRight_prefix [of "TrimLeft s"]
    by (auto simp: leading_space_0_iff dest: prefix_order.trans)
  moreover have "sublist (TrimRight (TrimLeft s)) s"
    using TrimRight_prefix [of "TrimLeft s"] TrimLeft_suffix [of s]
    by (meson prefix_imp_sublist sublist_order.order_trans suffix_imp_sublist)
  ultimately show ?thesis
    by (simp add: TrimSpace_def TrimRight_no_trailing_space)
qed

lemmas trim_defs = TrimSpace_def TrimLeft.simps TrimRight.simps leading_space_def
  trailing_space_def space_runes_def dropCR_def MaxScanTokenSize_def suffix_to_prefix

lemma loadModelFilter_errors:
  "loadModelFilter (Inl err) = Inl (OpenError err)"
  "\<exists>raw \<in> set (raw_lines [] bytes). MaxScanTokenSize \<le> length raw \<Longrightarrow>
   loadModelFilter (Inr bytes) = Inl ErrTooLong"
  by (simp_all add: loadModelFilter_def scan_loop_too_long)

text \<open>
  Claim C7, as amended. When the file opens and each of its lines fits the scanner's
  buffer, loading the filter yields exactly the set of the lines, trimmed of the white space
  at both ends, that are not empty after trimming; duplicate lines give one member, and no
  member has white space at either end. A line that starts with \<^verbatim>\<open>#\<close> is a line like
  any other: it becomes a member.
\<close>
theorem loadModelFilter_members:
  assumes "\<forall>raw \<in> set (raw_lines [] bytes). length raw < MaxScanTokenSize"
  shows "\<exists>flt. loadModelFilter (Inr bytes) = Inr flt
           \<and> (\<forall>x. x |\<in>| flt \<longleftrightarrow>
                 x \<noteq> '''' \<and> (\<exists>raw \<in> set (raw_lines [] bytes). x = TrimSpace (dropCR raw)))
           \<and> (\<forall>x. x |\<in>| flt \<longrightarrow> leading_space x = 0 \<and> trailing_space x = 0)"
proof -
  let ?flt = "fset_of_list (filter (\<lambda>line. line \<noteq> '''')
      (map (\<lambda>raw. TrimSpace (dropCR raw)) (raw_lines [] bytes)))"
  have "loadModelFilter (Inr bytes) = Inr ?flt"
    by (simp add: loadModelFilter_def scan_loop_short [OF assms])
  moreover have "x |\<in>| ?flt \<longleftrightarrow>
      x \<noteq> '''' \<and> (\<exists>raw \<in> set (raw_lines [] bytes). x = TrimSpace (dropCR raw))" for x
    by (auto simp: fset_of_list.rep_eq)
  moreover have "leading_space x = 0 \<and> trailing_space x = 0" if "x |\<in>| ?flt" for x
    using that TrimSpace_trimmed by (auto simp: fset_of_list.rep_eq)
  ultimately show ?thesis by blast
qed

text \<open>
  A file with a \<^verbatim>\<open>#\<close> line, a model name with blanks around it and a carriage return,
  an empty line, and the same name again without a final newline.
\<close>
theorem loadModelFilter_members_witness:
  "list_all (\<lambda>raw. length raw < MaxScanTokenSize)
     (raw_lines []
        (''#comment'' @ [CHR 0x0A] @ '' gpt-4o '' @ [CHR 0x0D, CHR 0x0A, CHR 0x0A] @ ''gpt-4o''))
   \<and> loadModelFilter
       (Inr (''#comment'' @ [CHR 0x0A] @ '' gpt-4o '' @ [CHR 0x0D, CHR 0x0A, CHR 0x0A] @ ''gpt-4o'')) =
       Inr {|''gpt-4o'', ''#comment''|}"
proof -
  let ?bytes = "''#comment'' @ [CHR 0x0A] @ '' gpt-4o '' @ [CHR 0x0D, CHR 0x0A, CHR 0x0A] @ ''gpt-4o''"
  have short: "\<forall>raw \<in> set (raw_lines [] ?bytes). length raw < MaxScanTokenSize"
    by (simp add: MaxScanTokenSize_def)
  from loadModelFilter_members [OF short]
  obtain flt where flt: "loadModelFilter (Inr ?bytes) = Inr flt"
    by blast
  have "loadModelFilter (Inr ?bytes) = Inr {|''gpt-4o'', ''#comment''|}"
    using flt by (simp add: loadModelFilter_def trim_defs)
  with short show ?thesis by (simp add: list_all_iff)
qed

text \<open>
  Claim C7 as stated fails: the \<^verbatim>\<open>#\<close> line of a two-line file is a member of the
  filter set.
\<close>
theorem loadModelFilter_comment_counterexample:
  "loadModelFilter (Inr (''#comment'' @ [CHR 0x0A] @ ''gpt-4o'' @ [CHR 0x0A])) =
     Inr {|''gpt-4o'', ''#comment''|}"
  by (simp add: loadModelFilter_def trim_defs)

end
